theory Spec2Isabelle
  imports Main "HOL-Library.Sublist"
begin

section \<open>LegalAI chat application: the session and message store of app.py\<close>

text \<open>
  The development embeds the persistence functions and the route handlers of
  \<^verbatim>\<open>LegalAI/app.py\<close>. The SQLite database is a value of type \<open>db\<close> that every
  function takes and returns; the exceptions that the handlers catch are values; the three
  collaborators the code cannot control are inputs of the model:
  \<^item> the wall clock read by \<^verbatim>\<open>CURRENT_TIMESTAMP\<close> (a number of seconds),
  \<^item> the language-model agent (\<^verbatim>\<open>create_legal_agent(...).run(...)\<close>),
  \<^item> the HTTP fetch and HTML parse of the scraper tool.

  Failures of the storage layer itself (I/O errors, a locked database file, the exhaustion of
  the 63-bit row-id space after \<open>2^63 - 1\<close> inserts) are outside the model. Requests are
  handled one at a time.
\<close>

subsection \<open>Python strings\<close>

text \<open>
  \<^verbatim>\<open>str.strip()\<close> and \<^verbatim>\<open>str.split()\<close> without arguments remove the characters for which
  \<^verbatim>\<open>str.isspace\<close> holds. Characters are the code points 0 to 255 of HOL's \<open>char\<close>; among
  them Python counts these twelve as white space.
\<close>

definition isspace :: "char \<Rightarrow> bool" where
  "isspace c = (of_char c \<in> {9, 10, 11, 12, 13, 28, 29, 30, 31, 32, 133, 160 :: nat})"

definition strip :: "string \<Rightarrow> string" where
  "strip s = rev (dropWhile isspace (rev (dropWhile isspace s)))"

text \<open>\<^verbatim>\<open>s.split()\<close>: the maximal runs of non-space characters, \<open>cur\<close> being the run read so far.\<close>

fun split_from :: "string \<Rightarrow> string \<Rightarrow> string list" where
  "split_from cur [] = (if cur = [] then [] else [cur])"
| "split_from cur (c # cs) =
     (if isspace c then (if cur = [] then split_from [] cs else cur # split_from [] cs)
      else split_from (cur @ [c]) cs)"

definition split :: "string \<Rightarrow> string list" where
  "split s = split_from [] s"

fun join :: "string \<Rightarrow> string list \<Rightarrow> string" where
  "join sep [] = []"
| "join sep [w] = w"
| "join sep (w # v # ws) = w @ sep @ join sep (v # ws)"

subsection \<open>The two tables\<close>

text \<open>
  \<^verbatim>\<open>chat_sessions(id TEXT PRIMARY KEY, title, created_at, updated_at)\<close> and
  \<^verbatim>\<open>chat_messages(id INTEGER PRIMARY KEY AUTOINCREMENT, session_id, role, content, timestamp)\<close>.
  A table is the list of its rows in the order of a table scan. \<open>sqlite_sequence\<close> is the
  counter SQLite keeps for an AUTOINCREMENT key: the largest message id handed out so far.
  The \<^verbatim>\<open>FOREIGN KEY (session_id) REFERENCES chat_sessions (id)\<close> clause is declared by
  \<^verbatim>\<open>init_db\<close>, but no connection of the program issues \<^verbatim>\<open>PRAGMA foreign_keys = ON\<close>, so
  SQLite does not enforce it and no statement below checks it.
\<close>

record session_row =
  sess_id :: string
  title :: string
  created_at :: nat
  updated_at :: nat

record message_row =
  msg_id :: nat
  session_id :: string
  role :: string
  content :: string
  timestamp :: nat

record db =
  chat_sessions :: "session_row list"
  chat_messages :: "message_row list"
  sqlite_sequence :: nat

definition init_db :: db where
  "init_db = \<lparr>chat_sessions = [], chat_messages = [], sqlite_sequence = 0\<rparr>"

text \<open>The largest integer SQLite stores, and the largest the \<^verbatim>\<open>sqlite3\<close> module binds to a
  \<^verbatim>\<open>?\<close> parameter; a larger Python int raises \<^verbatim>\<open>OverflowError\<close> in \<^verbatim>\<open>cursor.execute\<close>.\<close>

definition max_rowid :: nat where
  "max_rowid = 9223372036854775807"

subsection \<open>Exceptions and responses\<close>

datatype py_exn =
    HTTPException
  | AttributeError
  | OverflowError
  | IntegrityError
  | AgentError string

datatype response =
    Created string
  | Reply string
  | Deleted
  | EmptyMessage
  | NotEditable
  | InternalError py_exn

fun status_code :: "response \<Rightarrow> nat" where
  "status_code (Created u) = 200"
| "status_code (Reply r) = 200"
| "status_code Deleted = 200"
| "status_code EmptyMessage = 400"
| "status_code NotEditable = 404"
| "status_code (InternalError e) = 500"

subsection \<open>Persistence functions\<close>

text \<open>\<^verbatim>\<open>create_new_session\<close>: \<open>u\<close> is the string \<^verbatim>\<open>uuid.uuid4()\<close> produced and \<open>now\<close> the
  second of the INSERT. A second row with the same primary key is refused by SQLite.\<close>

definition create_new_session :: "string \<Rightarrow> nat \<Rightarrow> db \<Rightarrow> py_exn + db" where
  "create_new_session u now s =
     (if u \<in> set (map sess_id (chat_sessions s)) then Inl IntegrityError
      else Inr (s\<lparr>chat_sessions := chat_sessions s @
             [\<lparr>sess_id = u, title = ''New Legal Consultation'',
               created_at = now, updated_at = now\<rparr>]\<rparr>))"

text \<open>One element of the list \<^verbatim>\<open>get_chat_history\<close> returns (a dict with these four keys).\<close>

record history_entry =
  h_id :: nat
  h_role :: string
  h_content :: string
  h_timestamp :: nat

definition entry :: "message_row \<Rightarrow> history_entry" where
  "entry m = \<lparr>h_id = msg_id m, h_role = role m, h_content = content m,
              h_timestamp = timestamp m\<rparr>"

text \<open>
  \<^verbatim>\<open>SELECT ... WHERE session_id = ? ORDER BY timestamp ASC\<close>. The statement names no second
  sort key, and SQL leaves the order of rows with equal timestamps open. The model takes what
  SQLite does for this query: it scans the table in row order and its sorter keeps rows of
  equal key in scan order; \<open>sort_key\<close> is such a stable sort.
\<close>

definition get_chat_history :: "string \<Rightarrow> db \<Rightarrow> history_entry list" where
  "get_chat_history sid s =
     map entry (sort_key timestamp (filter (\<lambda>m. session_id m = sid) (chat_messages s)))"

definition insert_message :: "string \<Rightarrow> string \<Rightarrow> string \<Rightarrow> nat \<Rightarrow> db \<Rightarrow> db" where
  "insert_message sid r c now s =
     s\<lparr>chat_messages := chat_messages s @
          [\<lparr>msg_id = sqlite_sequence s + 1, session_id = sid, role = r, content = c,
            timestamp = now\<rparr>],
       sqlite_sequence := sqlite_sequence s + 1\<rparr>"

text \<open>\<^verbatim>\<open>UPDATE chat_sessions SET updated_at = CURRENT_TIMESTAMP WHERE id = ?\<close>\<close>

definition touch_session :: "string \<Rightarrow> nat \<Rightarrow> db \<Rightarrow> db" where
  "touch_session sid now s =
     s\<lparr>chat_sessions :=
          map (\<lambda>r. if sess_id r = sid then r\<lparr>updated_at := now\<rparr> else r) (chat_sessions s)\<rparr>"

text \<open>\<^verbatim>\<open>save_message\<close>: the INSERT runs at second \<open>t_ins\<close>, the UPDATE at \<open>t_upd\<close>.\<close>

definition save_message :: "string \<Rightarrow> string \<Rightarrow> string \<Rightarrow> nat \<Rightarrow> nat \<Rightarrow> db \<Rightarrow> db" where
  "save_message sid r c t_ins t_upd s = touch_session sid t_upd (insert_message sid r c t_ins s)"

definition display_title :: "string \<Rightarrow> string" where
  "display_title t = (if length t > 50 then take 50 t @ ''...'' else t)"

definition update_session_title :: "string \<Rightarrow> string \<Rightarrow> nat \<Rightarrow> db \<Rightarrow> db" where
  "update_session_title sid t now s =
     s\<lparr>chat_sessions :=
          map (\<lambda>r. if sess_id r = sid then r\<lparr>title := display_title t, updated_at := now\<rparr>
                   else r) (chat_sessions s)\<rparr>"

subsection \<open>The scraper tool\<close>

text \<open>
  What the library calls inside the \<^verbatim>\<open>try\<close> block of \<^verbatim>\<open>LawbhoomiScraperTool.run\<close> did:
  either one of them raised (\<^verbatim>\<open>requests.get\<close> and \<^verbatim>\<open>raise_for_status\<close> raise subclasses of
  \<^verbatim>\<open>RequestException\<close>; \<open>OtherException\<close> is any other subclass of \<^verbatim>\<open>Exception\<close>), each with
  the text \<^verbatim>\<open>str(e)\<close>, or the page was parsed and \<open>content_area\<close> and \<open>body\<close> hold the
  text that \<^verbatim>\<open>get_text(separator=' ', strip=True)\<close> extracts from each element, \<open>None\<close> when
  the element is absent.
\<close>

datatype fetch_exn = RequestException string | OtherException string

record soup =
  content_area :: "string option"
  body :: "string option"

datatype fetched = Raised fetch_exn | Page soup

definition fixed_url :: string where
  "fixed_url = ''https://lawbhoomi.com/law-notes/''"

text \<open>The body of the \<^verbatim>\<open>try\<close> block. \<^verbatim>\<open>soup.body\<close> is \<^verbatim>\<open>None\<close> for a page without a body element,
  and calling \<^verbatim>\<open>get_text\<close> on it raises.\<close>

definition run_try :: "fetched \<Rightarrow> fetch_exn + string" where
  "run_try f =
     (case f of
        Raised e \<Rightarrow> Inl e
      | Page p \<Rightarrow>
          (case (case content_area p of
                   Some t \<Rightarrow> Inr t
                 | None \<Rightarrow>
                     (case body p of
                        Some t \<Rightarrow> Inr t
                      | None \<Rightarrow> Inl (OtherException
                          (CHR 0x27 # ''NoneType'' @ CHR 0x27 # '' object has no attribute '' @
                           CHR 0x27 # ''get_text'' @ [CHR 0x27])))) of
             Inl e \<Rightarrow> Inl e
           | Inr text_content \<Rightarrow>
               (let clean_text = join '' '' (split text_content) in
                if length clean_text < 50
                then Inr (''Successfully accessed URL '' @ fixed_url @
                          '', but extracted very little content. Extracted snippet: '' @
                          take 50 clean_text @ ''...'')
                else Inr (''--- START OF LAW BHOOMI NOTES CONTENT ---'' @ [CHR 0x0A, CHR 0x0A] @
                          clean_text @ [CHR 0x0A, CHR 0x0A] @
                          ''--- END OF LAW BHOOMI NOTES CONTENT ---''))))"

text \<open>\<^verbatim>\<open>run\<close> with its two \<^verbatim>\<open>except\<close> clauses: \<open>Inl\<close> would be an exception that leaves \<^verbatim>\<open>run\<close>.\<close>

definition run :: "fetched \<Rightarrow> fetch_exn + string" where
  "run f =
     (case run_try f of
        Inr r \<Rightarrow> Inr r
      | Inl (RequestException e) \<Rightarrow>
          Inr (''Error: Could not access LawBhoomi URL '' @ fixed_url @ ''. Details: '' @ e)
      | Inl (OtherException e) \<Rightarrow>
          Inr (''Error: Failed to process content from URL '' @ fixed_url @ ''. Details: '' @ e))"

subsection \<open>Route handlers\<close>

text \<open>
  The JSON body of a request, as far as \<^verbatim>\<open>request.get_json()\<close>, \<^verbatim>\<open>data.get("message", "")\<close>
  and \<^verbatim>\<open>.strip()\<close> tell bodies apart: \<^verbatim>\<open>get_json\<close> raises on a body that is not JSON; a JSON
  value that is not an object has no \<^verbatim>\<open>get\<close>; the value under \<^verbatim>\<open>"message"\<close> is absent, a
  string, or a value without \<^verbatim>\<open>strip\<close>.
\<close>

datatype json_value = JString string | JOther

datatype request_body = NotJson | NotAnObject | JsonObject "json_value option"

definition request_message :: "request_body \<Rightarrow> py_exn + string" where
  "request_message b =
     (case b of
        NotJson \<Rightarrow> Inl HTTPException
      | NotAnObject \<Rightarrow> Inl AttributeError
      | JsonObject None \<Rightarrow> Inr (strip [])
      | JsonObject (Some (JString m)) \<Rightarrow> Inr (strip m)
      | JsonObject (Some JOther) \<Rightarrow> Inl AttributeError)"

text \<open>
  The agent: given the history passed to \<^verbatim>\<open>create_legal_agent\<close> and the message passed to
  \<^verbatim>\<open>agent.run\<close>, it raises or returns \<^verbatim>\<open>str(response.content)\<close>.
  A clock \<open>clk\<close> gives the second at which the handler's \<open>k\<close>-th read of
  \<^verbatim>\<open>CURRENT_TIMESTAMP\<close> happens.
\<close>

type_synonym agent = "history_entry list \<Rightarrow> string \<Rightarrow> py_exn + string"

type_synonym clock = "nat \<Rightarrow> nat"

definition new_session :: "string \<Rightarrow> nat \<Rightarrow> db \<Rightarrow> response \<times> db" where
  "new_session u now s =
     (case create_new_session u now s of
        Inl e \<Rightarrow> (InternalError e, s)
      | Inr s' \<Rightarrow> (Created u, s'))"

definition get_chat :: "string \<Rightarrow> db \<Rightarrow> history_entry list" where
  "get_chat sid s = get_chat_history sid s"

text \<open>\<^verbatim>\<open>send_message\<close>: \<open>clk 0\<close> is the title update, \<open>clk 1\<close> and \<open>clk 2\<close> the two statements
  that save the user message, \<open>clk 3\<close> and \<open>clk 4\<close> those that save the reply.\<close>

definition send_message :: "string \<Rightarrow> request_body \<Rightarrow> agent \<Rightarrow> clock \<Rightarrow> db \<Rightarrow> response \<times> db" where
  "send_message sid b ag clk s =
     (case request_message b of
        Inl e \<Rightarrow> (InternalError e, s)
      | Inr user_message \<Rightarrow>
          if user_message = [] then (EmptyMessage, s)
          else
            (let chat_history = get_chat_history sid s;
                 s1 = (if length chat_history = 0
                       then update_session_title sid user_message (clk 0) s else s);
                 s2 = save_message sid ''user'' user_message (clk 1) (clk 2) s1
             in case ag chat_history user_message of
                  Inl e \<Rightarrow> (InternalError e, s2)
                | Inr ai_response \<Rightarrow>
                    (Reply ai_response,
                     save_message sid ''assistant'' ai_response (clk 3) (clk 4) s2)))"

definition delete_session :: "string \<Rightarrow> db \<Rightarrow> response \<times> db" where
  "delete_session sid s =
     (let s1 = s\<lparr>chat_messages := filter (\<lambda>m. session_id m \<noteq> sid) (chat_messages s)\<rparr>;
          s2 = s1\<lparr>chat_sessions := filter (\<lambda>r. sess_id r \<noteq> sid) (chat_sessions s1)\<rparr>
      in (Deleted, s2))"

text \<open>The three statements of the transaction in \<^verbatim>\<open>edit_message\<close>.\<close>

definition update_message :: "string \<Rightarrow> nat \<Rightarrow> string \<Rightarrow> nat \<Rightarrow> db \<Rightarrow> db" where
  "update_message sid mid c now s =
     s\<lparr>chat_messages :=
          map (\<lambda>m. if msg_id m = mid \<and> session_id m = sid
                   then m\<lparr>content := c, timestamp := now\<rparr> else m) (chat_messages s)\<rparr>"

definition delete_after :: "string \<Rightarrow> nat \<Rightarrow> db \<Rightarrow> db" where
  "delete_after sid mid s =
     s\<lparr>chat_messages :=
          filter (\<lambda>m. \<not> (session_id m = sid \<and> msg_id m > mid)) (chat_messages s)\<rparr>"

text \<open>\<^verbatim>\<open>edit_message\<close>: \<open>clk 0\<close> is the UPDATE of the message, \<open>clk 1\<close> the UPDATE of the
  session, \<open>clk 2\<close> and \<open>clk 3\<close> the two statements that save the reply. The route accepts
  the message id as a decimal number without sign.\<close>

definition edit_message ::
  "string \<Rightarrow> nat \<Rightarrow> request_body \<Rightarrow> agent \<Rightarrow> clock \<Rightarrow> db \<Rightarrow> response \<times> db" where
  "edit_message sid mid b ag clk s =
     (case request_message b of
        Inl e \<Rightarrow> (InternalError e, s)
      | Inr new_message \<Rightarrow>
          if new_message = [] then (EmptyMessage, s)
          else if max_rowid < mid then (InternalError OverflowError, s)
          else
            (case find (\<lambda>m. msg_id m = mid \<and> session_id m = sid) (chat_messages s) of
               None \<Rightarrow> (NotEditable, s)
             | Some m \<Rightarrow>
                 if role m \<noteq> ''user'' then (NotEditable, s)
                 else
                   (let s1 = touch_session sid (clk 1)
                               (delete_after sid mid
                                  (update_message sid mid new_message (clk 0) s));
                        chat_history = get_chat_history sid s1
                    in case ag chat_history new_message of
                         Inl e \<Rightarrow> (InternalError e, s1)
                       | Inr ai_response \<Rightarrow>
                           (Reply ai_response,
                            save_message sid ''assistant'' ai_response (clk 2) (clk 3) s1))))"

subsection \<open>Stores the handlers produce\<close>

text \<open>
  What the keys of \<^verbatim>\<open>init_db\<close> make SQLite maintain: message ids are distinct, a table scan
  meets them in increasing order and none exceeds the AUTOINCREMENT counter; session ids are
  distinct.
\<close>

definition wf_db :: "db \<Rightarrow> bool" where
  "wf_db s =
     (sorted_wrt (<) (map msg_id (chat_messages s)) \<and>
      (\<forall>m \<in> set (chat_messages s). msg_id m \<le> sqlite_sequence s) \<and>
      distinct (map sess_id (chat_sessions s)))"

text \<open>No timestamp lies after second \<open>t\<close>, and within a session a message with a smaller
  id does not carry a later timestamp.\<close>

definition chronological :: "nat \<Rightarrow> db \<Rightarrow> bool" where
  "chronological t s =
     ((\<forall>m \<in> set (chat_messages s). timestamp m \<le> t) \<and>
      (\<forall>m \<in> set (chat_messages s). \<forall>m' \<in> set (chat_messages s).
         session_id m = session_id m' \<and> msg_id m < msg_id m' \<longrightarrow> timestamp m \<le> timestamp m'))"

text \<open>The wall clock does not run backwards during a request (a handler reads it at most
  five times).\<close>

definition monotone :: "clock \<Rightarrow> bool" where
  "monotone clk = (clk 0 \<le> clk 1 \<and> clk 1 \<le> clk 2 \<and> clk 2 \<le> clk 3 \<and> clk 3 \<le> clk 4)"

text \<open>
  \<open>reach t s\<close>: the store \<open>s\<close> results from the empty database by a sequence of requests to
  the routes that write (\<^verbatim>\<open>new_session\<close>, \<^verbatim>\<open>send_message\<close>, \<^verbatim>\<open>delete_session\<close>,
  \<^verbatim>\<open>edit_message\<close>), handled one after the other under a wall clock that does not run
  backwards; \<open>t\<close> is the second of the last clock reading.
\<close>

inductive reach :: "nat \<Rightarrow> db \<Rightarrow> bool" where
  reach_init: "reach 0 init_db"
| reach_new: "reach t s \<Longrightarrow> t \<le> now \<Longrightarrow> reach now (snd (new_session u now s))"
| reach_send: "reach t s \<Longrightarrow> t \<le> clk 0 \<Longrightarrow> monotone clk \<Longrightarrow>
     reach (clk 4) (snd (send_message sid b ag clk s))"
| reach_delete: "reach t s \<Longrightarrow> reach t (snd (delete_session sid s))"
| reach_edit: "reach t s \<Longrightarrow> t \<le> clk 0 \<Longrightarrow> monotone clk \<Longrightarrow>
     reach (clk 4) (snd (edit_message sid mid b ag clk s))"

text \<open>Every message row names a session row: what the FOREIGN KEY clause declares.\<close>

definition referential_integrity :: "db \<Rightarrow> bool" where
  "referential_integrity s =
     (\<forall>m \<in> set (chat_messages s). session_id m \<in> set (map sess_id (chat_sessions s)))"

subsection \<open>Sample collaborators for concrete runs\<close>

definition agent_replying :: "string \<Rightarrow> agent" where
  "agent_replying r h m = Inr r"

definition agent_failing :: "py_exn \<Rightarrow> agent" where
  "agent_failing e h m = Inl e"

definition clock_from :: "nat \<Rightarrow> clock" where
  "clock_from t k = t + k"

definition text_body :: "string \<Rightarrow> request_body" where
  "text_body m = JsonObject (Some (JString m))"


text \<open>A session that exists and has no message yet.\<close>

definition empty_session :: db where
  "empty_session = snd (new_session ''s1'' 5 init_db)"

text \<open>
  Two sessions: \<open>s1\<close> holds the messages 1 to 5 (the agent failed on message 1, so message 2
  is a user message as well), \<open>s2\<close> holds message 6.
\<close>

definition five_messages :: db where
  "five_messages =
     \<lparr>chat_sessions =
        [\<lparr>sess_id = ''s1'', title = ''first question'', created_at = 1, updated_at = 9\<rparr>,
         \<lparr>sess_id = ''s2'', title = ''other'', created_at = 2, updated_at = 10\<rparr>],
      chat_messages =
        [\<lparr>msg_id = 1, session_id = ''s1'', role = ''user'', content = ''first question'', timestamp = 3\<rparr>,
         \<lparr>msg_id = 2, session_id = ''s1'', role = ''user'', content = ''second question'', timestamp = 5\<rparr>,
         \<lparr>msg_id = 3, session_id = ''s1'', role = ''assistant'', content = ''an answer'', timestamp = 6\<rparr>,
         \<lparr>msg_id = 4, session_id = ''s1'', role = ''user'', content = ''third question'', timestamp = 8\<rparr>,
         \<lparr>msg_id = 5, session_id = ''s1'', role = ''assistant'', content = ''another answer'', timestamp = 9\<rparr>,
         \<lparr>msg_id = 6, session_id = ''s2'', role = ''user'', content = ''elsewhere'', timestamp = 10\<rparr>],
      sqlite_sequence = 6\<rparr>"

text \<open>A question of 80 characters and one of 25.\<close>

definition long_question :: string where
  "long_question = ''Which are the grounds for divorce under the Hindu Marriage Act of 1955 in India?''"

definition short_question :: string where
  "short_question = ''Is an oral contract valid''"

text \<open>A message sent to a session id that was never created, and one sent to the id of a
  session after its deletion.\<close>

definition orphan_store :: db where
  "orphan_store =
     snd (send_message ''ghost'' (text_body ''hi'') (agent_replying ''ok'') (clock_from 1) init_db)"

definition revived_store :: db where
  "revived_store =
     snd (send_message ''s1'' (text_body ''hi'') (agent_replying ''ok'') (clock_from 10)
            (snd (delete_session ''s1'' empty_session)))"

section \<open>Invariants of the store\<close>

subsection \<open>Keys\<close>

lemma sess_id_touch_comp:
  "sess_id \<circ> (\<lambda>r. if sess_id r = sid then r\<lparr>updated_at := now\<rparr> else r) = sess_id"
  by (auto simp: fun_eq_iff)

lemma sess_id_retitle_comp:
  "sess_id \<circ> (\<lambda>r. if sess_id r = sid then r\<lparr>title := d, updated_at := now\<rparr> else r) = sess_id"
  by (auto simp: fun_eq_iff)

lemma msg_id_update_comp:
  "msg_id \<circ> (\<lambda>m. if msg_id m = mid \<and> session_id m = sid
                   then m\<lparr>content := c, timestamp := now\<rparr> else m) = msg_id"
  by (auto simp: fun_eq_iff)

lemma messages_touch [simp]: "chat_messages (touch_session sid now s) = chat_messages s"
  by (simp add: touch_session_def)

lemma sequence_touch [simp]: "sqlite_sequence (touch_session sid now s) = sqlite_sequence s"
  by (simp add: touch_session_def)

lemma messages_retitle [simp]: "chat_messages (update_session_title sid t now s) = chat_messages s"
  by (simp add: update_session_title_def)

lemma sequence_retitle [simp]:
  "sqlite_sequence (update_session_title sid t now s) = sqlite_sequence s"
  by (simp add: update_session_title_def)

lemma session_ids_touch [simp]:
  "map sess_id (chat_sessions (touch_session sid now s)) = map sess_id (chat_sessions s)"
  by (simp add: touch_session_def sess_id_touch_comp)

lemma session_ids_retitle [simp]:
  "map sess_id (chat_sessions (update_session_title sid t now s)) = map sess_id (chat_sessions s)"
  by (simp add: update_session_title_def sess_id_retitle_comp)

lemma sessions_insert [simp]: "chat_sessions (insert_message sid r c now s) = chat_sessions s"
  by (simp add: insert_message_def)

lemma wf_insert: "wf_db s \<Longrightarrow> wf_db (insert_message sid r c now s)"
  unfolding wf_db_def insert_message_def
  by (simp add: sorted_wrt_append) fastforce

lemma wf_touch: "wf_db s \<Longrightarrow> wf_db (touch_session sid now s)"
  by (simp add: wf_db_def)


lemma wf_save: "wf_db s \<Longrightarrow> wf_db (save_message sid r c t1 t2 s)"
  by (simp add: save_message_def wf_touch wf_insert)

lemma wf_update_message: "wf_db s \<Longrightarrow> wf_db (update_message sid mid c now s)"
  unfolding wf_db_def update_message_def
  by (simp add: msg_id_update_comp) auto

lemma sorted_wrt_map_filter:
  "sorted_wrt R (map f xs) \<Longrightarrow> sorted_wrt R (map f (filter P xs))"
  by (induction xs) auto

lemma wf_delete_after: "wf_db s \<Longrightarrow> wf_db (delete_after sid mid s)"
  unfolding wf_db_def delete_after_def
  by (simp add: sorted_wrt_map_filter)





lemma wf_edit: "wf_db s \<Longrightarrow> wf_db (snd (edit_message sid mid b ag clk s))"
  unfolding edit_message_def
  by (auto simp: Let_def wf_save wf_touch wf_delete_after wf_update_message
           split: sum.splits option.splits)

subsection \<open>Timestamps follow ids within a session\<close>

lemma chrono_later: "chronological t s \<Longrightarrow> t \<le> t' \<Longrightarrow> chronological t' s"
  unfolding chronological_def by (meson le_trans)

lemma chrono_touch: "chronological t s \<Longrightarrow> chronological t (touch_session sid now s)"
  by (simp add: chronological_def)


lemma chrono_insert:
  assumes "chronological t s" and "wf_db s" and "t \<le> now"
  shows "chronological now (insert_message sid r c now s)"
proof -
  from assms(2) have below: "\<forall>m \<in> set (chat_messages s). msg_id m < sqlite_sequence s + 1"
    by (auto simp: wf_db_def)
  from assms(1,3) have old: "\<forall>m \<in> set (chat_messages s). timestamp m \<le> now"
    unfolding chronological_def by (meson le_trans)
  from assms(1) have pairs: "\<forall>m \<in> set (chat_messages s). \<forall>m' \<in> set (chat_messages s).
         session_id m = session_id m' \<and> msg_id m < msg_id m' \<longrightarrow> timestamp m \<le> timestamp m'"
    by (simp add: chronological_def)
  show ?thesis
    unfolding chronological_def insert_message_def
    using below old pairs by auto
qed

lemma chrono_save:
  "chronological t s \<Longrightarrow> wf_db s \<Longrightarrow> t \<le> t1 \<Longrightarrow> chronological t1 (save_message sid r c t1 t2 s)"
  by (simp add: save_message_def chrono_touch chrono_insert)

lemma chrono_truncate:
  assumes "chronological t s" and "t \<le> now"
  shows "chronological now (delete_after sid mid (update_message sid mid c now s))"
proof -
  let ?upd = "\<lambda>m. if msg_id m = mid \<and> session_id m = sid
                   then m\<lparr>content := c, timestamp := now\<rparr> else m"
  let ?s' = "delete_after sid mid (update_message sid mid c now s)"
  have rows: "\<exists>m \<in> set (chat_messages s). m' = ?upd m \<and> \<not> (session_id m = sid \<and> mid < msg_id m)"
    if "m' \<in> set (chat_messages ?s')" for m'
    using that by (auto simp: delete_after_def update_message_def)
  from assms have old: "timestamp m \<le> now" if "m \<in> set (chat_messages s)" for m
    using that unfolding chronological_def by (meson le_trans)
  from assms(1) have pairs: "timestamp m \<le> timestamp m'"
    if "m \<in> set (chat_messages s)" "m' \<in> set (chat_messages s)"
       "session_id m = session_id m'" "msg_id m < msg_id m'" for m m'
    using that by (simp add: chronological_def)
  have bound: "timestamp m' \<le> now" if "m' \<in> set (chat_messages ?s')" for m'
    using rows[OF that] old by auto
  have order: "timestamp a \<le> timestamp b"
    if a: "a \<in> set (chat_messages ?s')" and b: "b \<in> set (chat_messages ?s')"
      and same: "session_id a = session_id b" and less: "msg_id a < msg_id b" for a b
  proof -
    from rows[OF a] obtain m where m: "m \<in> set (chat_messages s)" "a = ?upd m"
      "\<not> (session_id m = sid \<and> mid < msg_id m)" by blast
    from rows[OF b] obtain m' where m': "m' \<in> set (chat_messages s)" "b = ?upd m'"
      "\<not> (session_id m' = sid \<and> mid < msg_id m')" by blast
    have ids: "msg_id a = msg_id m" "msg_id b = msg_id m'"
      "session_id a = session_id m" "session_id b = session_id m'"
      using m(2) m'(2) by auto
    show ?thesis
    proof (cases "msg_id m' = mid \<and> session_id m' = sid")
      case True
      then have "timestamp b = now" using m'(2) by simp
      moreover have "a = m" using m(2) True less ids by (auto split: if_splits)
      ultimately show ?thesis using old[OF m(1)] by simp
    next
      case False
      then have "b = m'" using m'(2) by (auto split: if_splits)
      moreover have "a = m" using m(2,3) m'(3) False less same ids by (auto split: if_splits)
      ultimately show ?thesis using pairs[OF m(1) m'(1)] same less by simp
    qed
  qed
  show ?thesis
    unfolding chronological_def using bound order by blast
qed





lemma chrono_edit:
  assumes "chronological t s" and "wf_db s" and "t \<le> clk 0" and "monotone clk"
  shows "chronological (clk 4) (snd (edit_message sid mid b ag clk s))"
proof -
  from assms(3,4) have c: "clk 0 \<le> clk 2" "clk 2 \<le> clk 4" "clk 0 \<le> clk 4" "t \<le> clk 4"
    by (auto simp: monotone_def)
  have unchanged: "chronological (clk 4) s"
    using assms(1) c(4) by (rule chrono_later)
  show ?thesis
  proof (cases "request_message b")
    case (Inl e)
    then show ?thesis using unchanged by (simp add: edit_message_def)
  next
    case (Inr n)
    let ?s1 = "touch_session sid (clk 1)
                 (delete_after sid mid (update_message sid mid n (clk 0) s))"
    have s1: "chronological (clk 0) ?s1" "wf_db ?s1"
      using assms(1,2,3)
      by (auto intro: chrono_touch chrono_truncate wf_touch wf_delete_after wf_update_message)
    have s1': "chronological (clk 4) ?s1"
      using s1(1) c(3) by (rule chrono_later)
    have s2: "chronological (clk 4) (save_message sid ''assistant'' a (clk 2) (clk 3) ?s1)" for a
      using chrono_save[OF s1(1) s1(2) c(1)] c(2) by (rule chrono_later)
    have unfolded: "snd (edit_message sid mid b ag clk s) = s \<or>
        snd (edit_message sid mid b ag clk s) = ?s1 \<or>
        (\<exists>a. snd (edit_message sid mid b ag clk s) =
              save_message sid ''assistant'' a (clk 2) (clk 3) ?s1)"
      unfolding edit_message_def Let_def Inr
      by (auto split: sum.splits option.splits)
    show ?thesis
      using unfolded unchanged s1' s2 by auto
  qed
qed


lemma session_rows_sorted:
  assumes "sorted_wrt (<) (map msg_id xs)"
    and "\<forall>m \<in> set xs. \<forall>m' \<in> set xs.
         session_id m = session_id m' \<and> msg_id m < msg_id m' \<longrightarrow> timestamp m \<le> timestamp m'"
  shows "sorted (map timestamp (filter (\<lambda>m. session_id m = sid) xs))"
  using assms
proof (induction xs)
  case Nil
  show ?case by simp
next
  case (Cons x xs)
  then show ?case by auto
qed

lemma history_is_table_order:
  assumes "wf_db s" and "chronological t s"
  shows "get_chat_history sid s = map entry (filter (\<lambda>m. session_id m = sid) (chat_messages s))"
proof -
  have "sorted (map timestamp (filter (\<lambda>m. session_id m = sid) (chat_messages s)))"
    using assms by (intro session_rows_sorted) (auto simp: wf_db_def chronological_def)
  then show ?thesis
    by (simp add: get_chat_history_def sort_key_id_if_sorted)
qed


lemmas handler_defs =
  send_message_def edit_message_def new_session_def create_new_session_def delete_session_def
  request_message_def text_body_def strip_def isspace_def get_chat_history_def
  update_session_title_def display_title_def save_message_def insert_message_def
  touch_session_def update_message_def delete_after_def init_db_def
  agent_replying_def agent_failing_def clock_from_def max_rowid_def



section \<open>Auxiliary facts\<close>

subsection \<open>Rows found by their key\<close>

lemma find_Some_member: "find P xs = Some M \<Longrightarrow> M \<in> set xs \<and> P M"
  by (induction xs) (auto split: if_splits)

lemma find_by_key:
  "distinct (map msg_id xs) \<Longrightarrow> M \<in> set xs \<Longrightarrow> session_id M = sid \<Longrightarrow>
   find (\<lambda>m. msg_id m = msg_id M \<and> session_id m = sid) xs = Some M"
  by (induction xs) (auto simp: image_iff)

lemma update_by_key:
  assumes "distinct (map msg_id xs)" and "M \<in> set xs" and "session_id M = sid"
  shows "map (\<lambda>m. if msg_id m = msg_id M \<and> session_id m = sid then m\<lparr>content := c, timestamp := now\<rparr> else m) xs
       = map (\<lambda>m. if m = M then M\<lparr>content := c, timestamp := now\<rparr> else m) xs"
proof (rule map_cong[OF refl])
  fix m assume "m \<in> set xs"
  then have "msg_id m = msg_id M \<longleftrightarrow> m = M"
    using assms(1,2) by (auto simp: distinct_map inj_on_def)
  then show "(if msg_id m = msg_id M \<and> session_id m = sid then m\<lparr>content := c, timestamp := now\<rparr> else m)
      = (if m = M then M\<lparr>content := c, timestamp := now\<rparr> else m)"
    using assms(3) by auto
qed

lemma truncated_table:
  assumes "distinct (map msg_id xs)" and "M \<in> set xs" and "session_id M = sid"
  shows "filter (\<lambda>m. \<not> (session_id m = sid \<and> msg_id M < msg_id m))
           (map (\<lambda>m. if msg_id m = msg_id M \<and> session_id m = sid
                      then m\<lparr>content := c, timestamp := now\<rparr> else m) xs)
       = map (\<lambda>m. if m = M then M\<lparr>content := c, timestamp := now\<rparr> else m)
           (filter (\<lambda>m. \<not> (session_id m = sid \<and> msg_id M < msg_id m)) xs)"
proof -
  let ?upd = "\<lambda>m. if msg_id m = msg_id M \<and> session_id m = sid
                   then m\<lparr>content := c, timestamp := now\<rparr> else m"
  have keep: "(\<lambda>m. \<not> (session_id m = sid \<and> msg_id M < msg_id m)) \<circ> ?upd
      = (\<lambda>m. \<not> (session_id m = sid \<and> msg_id M < msg_id m))"
    by (auto simp: fun_eq_iff)
  have "filter (\<lambda>m. \<not> (session_id m = sid \<and> msg_id M < msg_id m)) (map ?upd xs)
      = map ?upd (filter (\<lambda>m. \<not> (session_id m = sid \<and> msg_id M < msg_id m)) xs)"
    by (simp only: filter_map keep)
  also have "\<dots> = map (\<lambda>m. if m = M then M\<lparr>content := c, timestamp := now\<rparr> else m)
           (filter (\<lambda>m. \<not> (session_id m = sid \<and> msg_id M < msg_id m)) xs)"
    using assms by (intro update_by_key) (auto simp: distinct_map_filter)
  finally show ?thesis .
qed

lemma truncated_session_rows:
  assumes "sorted_wrt (<) (map msg_id xs)" and "M \<in> set xs" and "session_id M = sid"
    and "session_id M' = sid"
  shows "filter (\<lambda>m. session_id m = sid)
           (map (\<lambda>m. if m = M then M' else m)
              (filter (\<lambda>m. \<not> (session_id m = sid \<and> msg_id M < msg_id m)) xs))
       = filter (\<lambda>m. session_id m = sid \<and> msg_id m < msg_id M) xs @ [M']"
  using assms(1,2)
proof (induction xs)
  case Nil
  then show ?case by simp
next
  case (Cons x xs)
  show ?case
  proof (cases "x = M")
    case True
    from Cons.prems(1) True have later: "\<forall>m \<in> set xs. msg_id M < msg_id m"
      by simp
    then have "M \<notin> set xs" by auto
    have "filter (\<lambda>m. session_id m = sid)
           (map (\<lambda>m. if m = M then M' else m)
              (filter (\<lambda>m. \<not> (session_id m = sid \<and> msg_id M < msg_id m)) xs)) = []"
      using later by (auto simp: filter_empty_conv)
    moreover have "filter (\<lambda>m. session_id m = sid \<and> msg_id m < msg_id M) xs = []"
      using later by (auto simp: filter_empty_conv)
    ultimately show ?thesis
      using True assms(3,4) by simp
  next
    case False
    with Cons.prems have in_rest: "M \<in> set xs" and before: "msg_id x < msg_id M"
      and sorted: "sorted_wrt (<) (map msg_id xs)"
      by auto
    from Cons.IH[OF sorted in_rest] False before show ?thesis
      by simp
  qed
qed

lemma touch_twice:
  "map (\<lambda>r. if sess_id r = sid then r\<lparr>updated_at := t2\<rparr> else r)
     (map (\<lambda>r. if sess_id r = sid then r\<lparr>updated_at := t1\<rparr> else r) xs)
   = map (\<lambda>r. if sess_id r = sid then r\<lparr>updated_at := t2\<rparr> else r) xs"
  by (induction xs) auto

lemma find_key_unique:
  assumes "distinct (map msg_id xs)"
    and "find (\<lambda>m. msg_id m = mid \<and> session_id m = sid) xs = Some M"
    and "m \<in> set xs" and "msg_id m = mid"
  shows "m = M"
proof -
  from assms(2) have "M \<in> set xs \<and> msg_id M = mid"
    by (auto dest: find_Some_member)
  with assms(1,3,4) show ?thesis
    by (metis distinct_map inj_on_def)
qed

lemma find_none_or_not_user:
  assumes "distinct (map msg_id xs)"
  shows "(case find (\<lambda>m. msg_id m = mid \<and> session_id m = sid) xs of
            None \<Rightarrow> True | Some m \<Rightarrow> role m \<noteq> ''user'')
     \<longleftrightarrow> \<not> (\<exists>m \<in> set xs. msg_id m = mid \<and> session_id m = sid \<and> role m = ''user'')"
proof (cases "find (\<lambda>m. msg_id m = mid \<and> session_id m = sid) xs")
  case None
  then have "\<not> (\<exists>m \<in> set xs. msg_id m = mid \<and> session_id m = sid)"
    by (auto simp: find_None_iff)
  then show ?thesis unfolding None by auto
next
  case (Some M)
  then have M: "M \<in> set xs \<and> msg_id M = mid \<and> session_id M = sid"
    by (auto dest: find_Some_member)
  have only: "m = M" if "m \<in> set xs" "msg_id m = mid" for m
    using find_key_unique[OF assms Some that] .
  show ?thesis
    unfolding Some using M only by auto
qed

subsection \<open>Responses, titles and white space\<close>

lemma status_404: "status_code r = 404 \<longleftrightarrow> r = NotEditable"
  by (cases r) simp_all

lemma edit_message_404_unchanged:
  "fst (edit_message sid mid b ag clk s) = NotEditable \<Longrightarrow> snd (edit_message sid mid b ag clk s) = s"
  by (auto simp: edit_message_def Let_def split: sum.splits if_splits option.splits)

lemma title_touch_comp:
  "title \<circ> (\<lambda>r. if sess_id r = sid then r\<lparr>updated_at := now\<rparr> else r) = title"
  by (auto simp: fun_eq_iff)

lemma titles_touch [simp]:
  "map title (chat_sessions (touch_session sid now s)) = map title (chat_sessions s)"
  by (simp add: touch_session_def title_touch_comp)

lemma titles_save [simp]:
  "map title (chat_sessions (save_message sid r c t1 t2 s)) = map title (chat_sessions s)"
  by (simp add: save_message_def)

lemma titles_retitle:
  "map title (chat_sessions (update_session_title sid t now s)) =
   map (\<lambda>r. if sess_id r = sid then display_title t else title r) (chat_sessions s)"
  by (simp add: update_session_title_def comp_def if_distrib cong: if_cong)

lemma length_display_title: "length (display_title t) \<le> 53"
  by (simp add: display_title_def)

lemma titles_send:
  assumes "request_message b = Inr u" and "u \<noteq> []"
  shows "map title (chat_sessions (snd (send_message sid b ag clk s))) =
         map title (chat_sessions (if get_chat_history sid s = []
                                   then update_session_title sid u (clk 0) s else s))"
  using assms by (cases "ag (get_chat_history sid s) u") (simp_all add: send_message_def Let_def)

lemma strip_empty_iff: "strip raw = [] \<longleftrightarrow> (\<forall>c \<in> set raw. isspace c)"
proof
  assume "strip raw = []"
  then have all: "\<forall>c \<in> set (dropWhile isspace raw). isspace c"
    by (simp add: strip_def dropWhile_eq_Nil_conv)
  have "dropWhile isspace raw = []"
  proof (rule ccontr)
    assume ne: "dropWhile isspace raw \<noteq> []"
    then have "\<not> isspace (hd (dropWhile isspace raw))" by (rule hd_dropWhile)
    moreover have "hd (dropWhile isspace raw) \<in> set (dropWhile isspace raw)"
      using ne by simp
    ultimately show False using all by blast
  qed
  then show "\<forall>c \<in> set raw. isspace c"
    by (simp add: dropWhile_eq_Nil_conv)
next
  assume "\<forall>c \<in> set raw. isspace c"
  then have d: "dropWhile isspace raw = []"
    by (simp add: dropWhile_eq_Nil_conv)
  show "strip raw = []"
    unfolding strip_def d by simp
qed

subsection \<open>The sample stores\<close>

lemma empty_session_value: "empty_session =
  \<lparr>chat_sessions = [\<lparr>sess_id = ''s1'', title = ''New Legal Consultation'', created_at = 5,
                      updated_at = 5\<rparr>],
   chat_messages = [], sqlite_sequence = 0\<rparr>"
  by (simp add: empty_session_def new_session_def create_new_session_def init_db_def)

lemma five_messages_wf: "wf_db five_messages"
  by (simp add: wf_db_def five_messages_def)

lemma five_messages_chronological: "chronological 10 five_messages"
  by (simp add: chronological_def five_messages_def)

lemma long_question_request: "request_message (text_body long_question) = Inr long_question"
  by (simp add: request_message_def text_body_def strip_def isspace_def long_question_def)

lemma short_question_request: "request_message (text_body short_question) = Inr short_question"
  by (simp add: request_message_def text_body_def strip_def isspace_def short_question_def)

lemma orphan_store_value: "orphan_store =
  \<lparr>chat_sessions = [],
   chat_messages =
     [\<lparr>msg_id = 1, session_id = ''ghost'', role = ''user'', content = ''hi'', timestamp = 2\<rparr>,
      \<lparr>msg_id = 2, session_id = ''ghost'', role = ''assistant'', content = ''ok'', timestamp = 4\<rparr>],
   sqlite_sequence = 2\<rparr>"
  by (simp add: orphan_store_def handler_defs)

lemma orphan_store_reach: "reach (clock_from 1 4) orphan_store"
  unfolding orphan_store_def
  by (intro reach_send[where t = 0] reach_init) (simp_all add: monotone_def clock_from_def)

lemma orphan_store_integrity: "\<not> referential_integrity orphan_store"
  by (auto simp: referential_integrity_def orphan_store_value)

lemma revived_store_value: "revived_store =
  \<lparr>chat_sessions = [],
   chat_messages =
     [\<lparr>msg_id = 1, session_id = ''s1'', role = ''user'', content = ''hi'', timestamp = 11\<rparr>,
      \<lparr>msg_id = 2, session_id = ''s1'', role = ''assistant'', content = ''ok'', timestamp = 13\<rparr>],
   sqlite_sequence = 2\<rparr>"
  by (simp add: revived_store_def empty_session_value handler_defs)

lemma revived_store_reach: "reach (clock_from 10 4) revived_store"
  unfolding revived_store_def empty_session_def
  by (intro reach_send[where t = 5] reach_delete reach_new[where t = 0] reach_init)
     (simp_all add: monotone_def clock_from_def)

subsection \<open>Referential integrity\<close>

text \<open>
  The routes keep every message attached to a session row, except that \<open>send_message\<close>
  does so only when the session it is given exists.
\<close>

lemma integrity_new_session:
  "referential_integrity s \<Longrightarrow> referential_integrity (snd (new_session u now s))"
  by (auto simp: referential_integrity_def new_session_def create_new_session_def)

lemma integrity_delete_session:
  "referential_integrity s \<Longrightarrow> referential_integrity (snd (delete_session sid s))"
  by (auto simp: referential_integrity_def delete_session_def)

lemma integrity_save:
  "referential_integrity s \<Longrightarrow> sid \<in> set (map sess_id (chat_sessions s)) \<Longrightarrow>
   referential_integrity (save_message sid r c t1 t2 s)"
  by (auto simp: referential_integrity_def save_message_def insert_message_def)

lemma integrity_retitle:
  "referential_integrity s \<Longrightarrow> referential_integrity (update_session_title sid t now s)"
  by (simp add: referential_integrity_def)

lemma integrity_truncate:
  "referential_integrity s \<Longrightarrow>
   referential_integrity (touch_session sid t1 (delete_after sid mid (update_message sid mid c t0 s)))"
  by (auto simp: referential_integrity_def delete_after_def update_message_def)

lemma session_ids_save [simp]:
  "map sess_id (chat_sessions (save_message sid r c t1 t2 s)) = map sess_id (chat_sessions s)"
  by (simp add: save_message_def)

lemma integrity_send_message:
  assumes "referential_integrity s" and "sid \<in> set (map sess_id (chat_sessions s))"
  shows "referential_integrity (snd (send_message sid b ag clk s))"
proof (cases "request_message b")
  case (Inl e)
  then show ?thesis using assms(1) by (simp add: send_message_def)
next
  case (Inr u)
  let ?s1 = "if length (get_chat_history sid s) = 0
             then update_session_title sid u (clk 0) s else s"
  let ?s2 = "save_message sid ''user'' u (clk 1) (clk 2) ?s1"
  have s1: "referential_integrity ?s1" "sid \<in> set (map sess_id (chat_sessions ?s1))"
    using assms by (auto simp: integrity_retitle simp del: set_map)
  then have s2: "referential_integrity ?s2" "sid \<in> set (map sess_id (chat_sessions ?s2))"
    by (auto intro: integrity_save simp del: set_map)
  then have s3: "referential_integrity (save_message sid ''assistant'' a (clk 3) (clk 4) ?s2)" for a
    by (rule integrity_save)
  show ?thesis
  proof (cases "u = []")
    case True
    then show ?thesis using Inr assms(1) by (simp add: send_message_def)
  next
    case False
    have "send_message sid b ag clk s =
          (case ag (get_chat_history sid s) u of
             Inl e \<Rightarrow> (InternalError e, ?s2)
           | Inr a \<Rightarrow> (Reply a, save_message sid ''assistant'' a (clk 3) (clk 4) ?s2))"
      unfolding send_message_def Let_def Inr using False by simp
    then show ?thesis
      using s2(1) s3 by (cases "ag (get_chat_history sid s) u") simp_all
  qed
qed

lemma integrity_edit_message:
  assumes "referential_integrity s"
  shows "referential_integrity (snd (edit_message sid mid b ag clk s))"
proof (cases "request_message b")
  case (Inl e)
  then show ?thesis using assms by (simp add: edit_message_def)
next
  case (Inr n)
  let ?found = "find (\<lambda>m. msg_id m = mid \<and> session_id m = sid) (chat_messages s)"
  let ?s1 = "touch_session sid (clk 1)
               (delete_after sid mid (update_message sid mid n (clk 0) s))"
  have s1: "referential_integrity ?s1"
    using assms by (rule integrity_truncate)
  show ?thesis
  proof (cases ?found)
    case None
    then show ?thesis using Inr assms by (simp add: edit_message_def)
  next
    case (Some M)
    then have "M \<in> set (chat_messages s) \<and> session_id M = sid"
      by (auto dest: find_Some_member)
    then have "sid \<in> set (map sess_id (chat_sessions s))"
      using assms by (auto simp: referential_integrity_def)
    then have "sid \<in> set (map sess_id (chat_sessions ?s1))"
      by (simp add: delete_after_def update_message_def del: set_map)
    with s1 have s2: "referential_integrity (save_message sid ''assistant'' a (clk 2) (clk 3) ?s1)" for a
      by (rule integrity_save)
    have "snd (edit_message sid mid b ag clk s) = s \<or>
        snd (edit_message sid mid b ag clk s) = ?s1 \<or>
        (\<exists>a. snd (edit_message sid mid b ag clk s) =
              save_message sid ''assistant'' a (clk 2) (clk 3) ?s1)"
      unfolding edit_message_def Let_def Inr
      by (auto split: sum.splits option.splits)
    then show ?thesis
      using assms s1 s2 by auto
  qed
qed

section \<open>Editing a message\<close>

text \<open>
  C1. Let \<open>M\<close> be a user message of session \<open>sid\<close>, and let an \<open>edit_message\<close> request for
  it succeed with the reply \<open>reply\<close>; \<open>new_content\<close> is the new content, the request's
  message after \<^verbatim>\<open>.strip()\<close> (the handler's \<^verbatim>\<open>new_message\<close>), and it is not empty. Then
  the table holds \<open>M\<close> at its place with the new content and the timestamp of the edit,
  no other message of the session with a greater id, every other row as before, and one new
  row at the end: the assistant's reply under a fresh id. The session's \<open>updated_at\<close> is
  the second of the last statement. When the timestamps of the store follow the ids and the
  clock does not run backwards, the history of the session is the messages before \<open>M\<close>,
  the edited \<open>M\<close>, and the reply.
\<close>

theorem edit_message_success:
  assumes wf: "wf_db s"
    and M: "M \<in> set (chat_messages s)" "session_id M = sid" "role M = ''user''"
    and new: "request_message b = Inr new_content"
    and success: "fst (edit_message sid (msg_id M) b ag clk s) = Reply reply"
  shows "let s' = snd (edit_message sid (msg_id M) b ag clk s);
             M' = M\<lparr>content := new_content, timestamp := clk 0\<rparr>;
             R = \<lparr>msg_id = sqlite_sequence s + 1, session_id = sid, role = ''assistant'',
                  content = reply, timestamp = clk 2\<rparr>
         in new_content \<noteq> [] \<and>
            chat_messages s' =
              map (\<lambda>m. if m = M then M' else m)
                (filter (\<lambda>m. \<not> (session_id m = sid \<and> msg_id M < msg_id m)) (chat_messages s))
              @ [R] \<and>
            chat_sessions s' =
              map (\<lambda>r. if sess_id r = sid then r\<lparr>updated_at := clk 3\<rparr> else r) (chat_sessions s) \<and>
            sqlite_sequence s' = sqlite_sequence s + 1 \<and>
            (chronological t s \<and> t \<le> clk 0 \<and> monotone clk \<longrightarrow>
             get_chat_history sid s' =
               map entry (filter (\<lambda>m. session_id m = sid \<and> msg_id m < msg_id M)
                            (chat_messages s))
               @ [entry M', entry R])"
proof -
  let ?s1 = "touch_session sid (clk 1)
               (delete_after sid (msg_id M) (update_message sid (msg_id M) new_content (clk 0) s))"
  let ?s' = "snd (edit_message sid (msg_id M) b ag clk s)"
  let ?M' = "M\<lparr>content := new_content, timestamp := clk 0\<rparr>"
  let ?R = "\<lparr>msg_id = sqlite_sequence s + 1, session_id = sid, role = ''assistant'',
             content = reply, timestamp = clk 2\<rparr>"
  let ?kept = "map (\<lambda>m. if m = M then ?M' else m)
                (filter (\<lambda>m. \<not> (session_id m = sid \<and> msg_id M < msg_id m)) (chat_messages s))"
  from wf have ids: "sorted_wrt (<) (map msg_id (chat_messages s))"
    by (simp add: wf_db_def)
  then have dist: "distinct (map msg_id (chat_messages s))"
    by (simp add: strict_sorted_iff)
  have found: "find (\<lambda>m. msg_id m = msg_id M \<and> session_id m = sid) (chat_messages s) = Some M"
    using dist M(1,2) by (rule find_by_key)
  have facts: "new_content \<noteq> []"
    "ag (get_chat_history sid ?s1) new_content = Inr reply"
    using success new found M(3)
    by (auto simp: edit_message_def Let_def split: if_splits sum.splits)
  have fits: "\<not> max_rowid < msg_id M"
    using success new facts(1)
    by (auto simp: edit_message_def Let_def split: if_splits)
  have result: "?s' = save_message sid ''assistant'' reply (clk 2) (clk 3) ?s1"
    using new found M(3) facts fits by (simp add: edit_message_def Let_def)
  have table1: "chat_messages ?s1 = ?kept"
    using truncated_table[OF dist M(1,2)] by (simp add: delete_after_def update_message_def)
  have seq1: "sqlite_sequence ?s1 = sqlite_sequence s"
    by (simp add: delete_after_def update_message_def)
  have table: "chat_messages ?s' = ?kept @ [?R]"
    unfolding result using table1 seq1 by (simp add: save_message_def insert_message_def)
  have sessions: "chat_sessions ?s' =
      map (\<lambda>r. if sess_id r = sid then r\<lparr>updated_at := clk 3\<rparr> else r) (chat_sessions s)"
    unfolding result
    by (simp add: save_message_def insert_message_def touch_session_def delete_after_def
        update_message_def touch_twice)
  have seq: "sqlite_sequence ?s' = sqlite_sequence s + 1"
    unfolding result using seq1 by (simp add: save_message_def insert_message_def)
  have history: "get_chat_history sid ?s' =
      map entry (filter (\<lambda>m. session_id m = sid \<and> msg_id m < msg_id M) (chat_messages s))
      @ [entry ?M', entry ?R]"
    if chrono: "chronological t s" and start: "t \<le> clk 0" and mono: "monotone clk"
  proof -
    have "wf_db ?s'" "chronological (clk 4) ?s'"
      using wf chrono start mono by (auto intro: wf_edit chrono_edit)
    then have "get_chat_history sid ?s' =
        map entry (filter (\<lambda>m. session_id m = sid) (chat_messages ?s'))"
      by (rule history_is_table_order)
    also have "filter (\<lambda>m. session_id m = sid) (chat_messages ?s') =
        filter (\<lambda>m. session_id m = sid) ?kept @ [?R]"
      by (simp add: table)
    also have "filter (\<lambda>m. session_id m = sid) ?kept =
        filter (\<lambda>m. session_id m = sid \<and> msg_id m < msg_id M) (chat_messages s) @ [?M']"
      using ids M(1,2) by (intro truncated_session_rows) simp_all
    finally show ?thesis
      by simp
  qed
  show ?thesis
    unfolding Let_def using facts(1) table sessions seq history by simp
qed

theorem edit_message_success_witness:
  "wf_db five_messages \<and> chronological 10 five_messages \<and> monotone (clock_from 20) \<and>
   fst (edit_message ''s1'' 2 (text_body ''  second question, reworded '')
          (agent_replying ''a new answer'') (clock_from 20) five_messages) = Reply ''a new answer'' \<and>
   map msg_id (chat_messages
     (snd (edit_message ''s1'' 2 (text_body ''  second question, reworded '')
             (agent_replying ''a new answer'') (clock_from 20) five_messages))) = [1, 2, 6, 7] \<and>
   map updated_at (chat_sessions
     (snd (edit_message ''s1'' 2 (text_body ''  second question, reworded '')
             (agent_replying ''a new answer'') (clock_from 20) five_messages))) = [23, 10] \<and>
   get_chat_history ''s1''
     (snd (edit_message ''s1'' 2 (text_body ''  second question, reworded '')
             (agent_replying ''a new answer'') (clock_from 20) five_messages)) =
     [\<lparr>h_id = 1, h_role = ''user'', h_content = ''first question'', h_timestamp = 3\<rparr>,
      \<lparr>h_id = 2, h_role = ''user'', h_content = ''second question, reworded'', h_timestamp = 20\<rparr>,
      \<lparr>h_id = 7, h_role = ''assistant'', h_content = ''a new answer'', h_timestamp = 22\<rparr>]"
proof -
  let ?M = "\<lparr>msg_id = 2, session_id = ''s1'', role = ''user'', content = ''second question'',
             timestamp = 5\<rparr>"
  let ?b = "text_body ''  second question, reworded ''"
  let ?s' = "snd (edit_message ''s1'' 2 ?b (agent_replying ''a new answer'') (clock_from 20)
                    five_messages)"
  have clock: "(10::nat) \<le> clock_from 20 0" "monotone (clock_from 20)"
    by (simp_all add: monotone_def clock_from_def)
  have M: "?M \<in> set (chat_messages five_messages)" "session_id ?M = ''s1''" "role ?M = ''user''"
    by (simp_all add: five_messages_def)
  have new: "request_message ?b = Inr ''second question, reworded''"
    by (simp add: request_message_def text_body_def strip_def isspace_def)
  have success: "fst (edit_message ''s1'' (msg_id ?M) ?b (agent_replying ''a new answer'')
                        (clock_from 20) five_messages) = Reply ''a new answer''"
    by (simp add: edit_message_def new five_messages_def max_rowid_def agent_replying_def)
  note run = edit_message_success[OF five_messages_wf M new success, of 10, unfolded Let_def]
  from run have "chat_messages ?s' =
      map (\<lambda>m. if m = ?M then ?M\<lparr>content := ''second question, reworded'',
                                  timestamp := clock_from 20 0\<rparr> else m)
        (filter (\<lambda>m. \<not> (session_id m = ''s1'' \<and> 2 < msg_id m)) (chat_messages five_messages)) @
      [\<lparr>msg_id = sqlite_sequence five_messages + 1, session_id = ''s1'', role = ''assistant'',
        content = ''a new answer'', timestamp = clock_from 20 2\<rparr>]"
    by simp
  then have table: "map msg_id (chat_messages ?s') = [1, 2, 6, 7]"
    by (simp add: five_messages_def)
  from run have "chat_sessions ?s' =
      map (\<lambda>r. if sess_id r = ''s1'' then r\<lparr>updated_at := clock_from 20 3\<rparr> else r)
        (chat_sessions five_messages)"
    by simp
  then have sessions: "map updated_at (chat_sessions ?s') = [23, 10]"
    by (simp add: five_messages_def clock_from_def)
  from run five_messages_chronological clock
  have "get_chat_history ''s1'' ?s' =
     map entry (filter (\<lambda>m. session_id m = ''s1'' \<and> msg_id m < 2) (chat_messages five_messages)) @
     [entry (?M\<lparr>content := ''second question, reworded'', timestamp := clock_from 20 0\<rparr>),
      entry \<lparr>msg_id = sqlite_sequence five_messages + 1, session_id = ''s1'', role = ''assistant'',
             content = ''a new answer'', timestamp = clock_from 20 2\<rparr>]"
    by simp
  also have "\<dots> =
     [\<lparr>h_id = 1, h_role = ''user'', h_content = ''first question'', h_timestamp = 3\<rparr>,
      \<lparr>h_id = 2, h_role = ''user'', h_content = ''second question, reworded'', h_timestamp = 20\<rparr>,
      \<lparr>h_id = 7, h_role = ''assistant'', h_content = ''a new answer'', h_timestamp = 22\<rparr>]"
    by (simp add: five_messages_def entry_def clock_from_def)
  finally have history: "get_chat_history ''s1'' ?s' =
     [\<lparr>h_id = 1, h_role = ''user'', h_content = ''first question'', h_timestamp = 3\<rparr>,
      \<lparr>h_id = 2, h_role = ''user'', h_content = ''second question, reworded'', h_timestamp = 20\<rparr>,
      \<lparr>h_id = 7, h_role = ''assistant'', h_content = ''a new answer'', h_timestamp = 22\<rparr>]" .
  from success have success': "fst (edit_message ''s1'' 2 ?b (agent_replying ''a new answer'')
                        (clock_from 20) five_messages) = Reply ''a new answer''"
    by simp
  show ?thesis
    by (intro conjI five_messages_wf five_messages_chronological clock(2) success' table sessions
        history)
qed

section \<open>The history of a session\<close>



section \<open>The title of a session\<close>

text \<open>
  C3. The stored title is the first 50 characters of the raw title followed by three dots when
  the raw title has more than 50 characters, and the raw title otherwise; it has at most 53
  characters. A message \<open>u\<close> (the request's message after \<^verbatim>\<open>.strip()\<close>) sent to a session
  whose history is empty becomes the title of that session in this form: as it is when it has
  25 characters, as its first 50 characters and three dots when it has 80. The other sessions
  keep their titles.
\<close>

theorem first_message_sets_title:
  assumes "request_message b = Inr u" and "u \<noteq> []" and "get_chat_history sid s = []"
  shows "display_title t = (if length t > 50 then take 50 t @ ''...'' else t) \<and>
         length (display_title t) \<le> 53 \<and>
         map title (chat_sessions (update_session_title sid t now s)) =
           map (\<lambda>r. if sess_id r = sid then display_title t else title r) (chat_sessions s) \<and>
         map title (chat_sessions (snd (send_message sid b ag clk s))) =
           map (\<lambda>r. if sess_id r = sid then display_title u else title r) (chat_sessions s) \<and>
         (length u = 25 \<longrightarrow> display_title u = u) \<and>
         (length u = 80 \<longrightarrow> display_title u = take 50 u @ ''...'')"
  using assms
  by (simp add: titles_send titles_retitle length_display_title) (simp add: display_title_def)

theorem first_message_sets_title_witness:
  "request_message (text_body long_question) = Inr long_question \<and> long_question \<noteq> [] \<and>
   request_message (text_body short_question) = Inr short_question \<and> short_question \<noteq> [] \<and>
   get_chat_history ''s1'' empty_session = [] \<and>
   length long_question = 80 \<and> length short_question = 25 \<and>
   map title (chat_sessions (snd (send_message ''s1'' (text_body long_question)
                                    (agent_replying ''hi'') (clock_from 10) empty_session))) =
     [''Which are the grounds for divorce under the Hindu ...''] \<and>
   map title (chat_sessions (snd (send_message ''s1'' (text_body short_question)
                                    (agent_replying ''hi'') (clock_from 10) empty_session))) =
     [''Is an oral contract valid'']"
proof -
  have n: "long_question \<noteq> []" and l: "length long_question = 80"
    by (simp_all add: long_question_def)
  have n': "short_question \<noteq> []" and l': "length short_question = 25"
    by (simp_all add: short_question_def)
  have h: "get_chat_history ''s1'' empty_session = []"
    by (simp add: get_chat_history_def empty_session_value)
  from first_message_sets_title[OF long_question_request n h, of long_question 0
      "agent_replying ''hi''" "clock_from 10"] l
  have "map title (chat_sessions (snd (send_message ''s1'' (text_body long_question)
                                    (agent_replying ''hi'') (clock_from 10) empty_session))) =
        map (\<lambda>r. if sess_id r = ''s1'' then take 50 long_question @ ''...'' else title r)
          (chat_sessions empty_session)"
    by simp
  then have long: "map title (chat_sessions (snd (send_message ''s1'' (text_body long_question)
                                    (agent_replying ''hi'') (clock_from 10) empty_session))) =
     [''Which are the grounds for divorce under the Hindu ...'']"
    by (simp add: empty_session_value long_question_def)
  from first_message_sets_title[OF short_question_request n' h, of short_question 0
      "agent_replying ''hi''" "clock_from 10"] l'
  have "map title (chat_sessions (snd (send_message ''s1'' (text_body short_question)
                                    (agent_replying ''hi'') (clock_from 10) empty_session))) =
        map (\<lambda>r. if sess_id r = ''s1'' then short_question else title r)
          (chat_sessions empty_session)"
    by simp
  then have short: "map title (chat_sessions (snd (send_message ''s1'' (text_body short_question)
                                    (agent_replying ''hi'') (clock_from 10) empty_session))) =
     [''Is an oral contract valid'']"
    by (simp add: empty_session_value short_question_def)
  show ?thesis
    by (intro conjI long_question_request short_question_request n n' h l l' long short)
qed

section \<open>Messages and their sessions\<close>

text \<open>
  C4. The claim: after any sequence of requests every message row names an existing session
  row. \<open>send_message\<close> does not look the session up, and SQLite does not check the declared
  foreign key, so one request to a session id that was never created leaves two message rows
  and no session row (\<open>orphan_store_integrity\<close>).
\<close>

theorem send_message_unknown_session_orphans:
  "reach (clock_from 1 4) orphan_store \<and>
   chat_sessions orphan_store = [] \<and>
   chat_messages orphan_store =
     [\<lparr>msg_id = 1, session_id = ''ghost'', role = ''user'', content = ''hi'', timestamp = 2\<rparr>,
      \<lparr>msg_id = 2, session_id = ''ghost'', role = ''assistant'', content = ''ok'', timestamp = 4\<rparr>]"
proof -
  have sessions: "chat_sessions orphan_store = []"
    by (simp add: orphan_store_value)
  have messages: "chat_messages orphan_store =
     [\<lparr>msg_id = 1, session_id = ''ghost'', role = ''user'', content = ''hi'', timestamp = 2\<rparr>,
      \<lparr>msg_id = 2, session_id = ''ghost'', role = ''assistant'', content = ''ok'', timestamp = 4\<rparr>]"
    by (simp add: orphan_store_value)
  show ?thesis
    by (intro conjI orphan_store_reach sessions messages)
qed

section \<open>Edits that are refused\<close>

text \<open>
  C5, as amended. For a request whose message is not empty after \<^verbatim>\<open>.strip()\<close> and whose
  message id SQLite can bind, \<open>edit_message\<close> answers 404 exactly when the session has no
  user message with that id: no message with that id, or one whose role is not
  \<^verbatim>\<open>user\<close>. Whenever it answers 404, the store is as before.
\<close>

theorem edit_message_not_editable:
  assumes "wf_db s" and "request_message b = Inr new_content" and "new_content \<noteq> []"
    and "mid \<le> max_rowid"
  shows "(status_code (fst (edit_message sid mid b ag clk s)) = 404 \<longleftrightarrow>
            \<not> (\<exists>m \<in> set (chat_messages s).
                  msg_id m = mid \<and> session_id m = sid \<and> role m = ''user'')) \<and>
         (status_code (fst (edit_message sid mid b ag clk s)) = 404 \<longrightarrow>
            snd (edit_message sid mid b ag clk s) = s)"
proof -
  let ?found = "find (\<lambda>m. msg_id m = mid \<and> session_id m = sid) (chat_messages s)"
  let ?s1 = "touch_session sid (clk 1)
               (delete_after sid mid (update_message sid mid new_content (clk 0) s))"
  from assms(1) have dist: "distinct (map msg_id (chat_messages s))"
    by (simp add: wf_db_def strict_sorted_iff)
  from assms(4) have fits: "\<not> max_rowid < mid"
    by simp
  have refused: "fst (edit_message sid mid b ag clk s) = NotEditable \<longleftrightarrow>
        (case ?found of None \<Rightarrow> True | Some m \<Rightarrow> role m \<noteq> ''user'')"
  proof (cases ?found)
    case None
    then show ?thesis
      using assms(2,3) fits by (simp add: edit_message_def)
  next
    case (Some m)
    show ?thesis
    proof (cases "role m = ''user''")
      case False
      then show ?thesis
        using Some assms(2,3) fits by (simp add: edit_message_def)
    next
      case True
      then have "fst (edit_message sid mid b ag clk s) =
          (case ag (get_chat_history sid ?s1) new_content of
             Inl e \<Rightarrow> InternalError e | Inr a \<Rightarrow> Reply a)"
        using Some assms(2,3) fits
        by (simp add: edit_message_def Let_def split: sum.splits)
      then have "fst (edit_message sid mid b ag clk s) \<noteq> NotEditable"
        by (cases "ag (get_chat_history sid ?s1) new_content") simp_all
      then show ?thesis
        using Some True by simp
    qed
  qed
  have "status_code (fst (edit_message sid mid b ag clk s)) = 404 \<longleftrightarrow>
        \<not> (\<exists>m \<in> set (chat_messages s).
              msg_id m = mid \<and> session_id m = sid \<and> role m = ''user'')"
    unfolding status_404 refused by (rule find_none_or_not_user[OF dist])
  moreover have "status_code (fst (edit_message sid mid b ag clk s)) = 404 \<longrightarrow>
        snd (edit_message sid mid b ag clk s) = s"
    unfolding status_404 by (rule impI) (rule edit_message_404_unchanged)
  ultimately show ?thesis
    by (rule conjI)
qed

theorem edit_message_not_editable_witness:
  "wf_db five_messages \<and>
   request_message (text_body ''changed'') = Inr ''changed'' \<and> ''changed'' \<noteq> [] \<and>
   3 \<le> max_rowid \<and>
   edit_message ''s1'' 3 (text_body ''changed'') (agent_replying ''ok'') (clock_from 20) five_messages
     = (NotEditable, five_messages)"
proof -
  have b: "request_message (text_body ''changed'') = Inr ''changed''"
    by (simp add: request_message_def text_body_def strip_def isspace_def)
  have n: "''changed'' \<noteq> []" and m: "3 \<le> max_rowid"
    by (simp_all add: max_rowid_def)
  have none: "\<not> (\<exists>m \<in> set (chat_messages five_messages).
                  msg_id m = 3 \<and> session_id m = ''s1'' \<and> role m = ''user'')"
    by (simp add: five_messages_def)
  from edit_message_not_editable[OF five_messages_wf b n m, of "''s1''" "agent_replying ''ok''"
      "clock_from 20"] none
  have "fst (edit_message ''s1'' 3 (text_body ''changed'') (agent_replying ''ok'') (clock_from 20)
               five_messages) = NotEditable \<and>
        snd (edit_message ''s1'' 3 (text_body ''changed'') (agent_replying ''ok'') (clock_from 20)
               five_messages) = five_messages"
    by (simp add: status_404)
  then show ?thesis
    using five_messages_wf b n m by (simp add: prod_eq_iff)
qed

text \<open>
  C5 as stated fails: the check for an empty message comes first, so an edit with a message
  of blanks answers 400 although the session has no message with that id; and an id beyond
  \<open>max_rowid\<close> answers 500.
\<close>

theorem edit_message_empty_content_counterexample:
  "chat_messages empty_session = [] \<and>
   fst (edit_message ''s1'' 1 (text_body ''   '') (agent_replying ''ok'') (clock_from 20)
          empty_session) = EmptyMessage \<and>
   status_code EmptyMessage = 400 \<and>
   fst (edit_message ''s1'' 9223372036854775808 (text_body ''changed'') (agent_replying ''ok'')
          (clock_from 20) empty_session) = InternalError OverflowError \<and>
   status_code (InternalError OverflowError) = 500"
  by (simp add: empty_session_value edit_message_def request_message_def text_body_def strip_def
      isspace_def max_rowid_def)

section \<open>Deleting a session\<close>

text \<open>
  C6. \<open>delete_session\<close> answers with success and removes the messages of the session and
  the session row, and nothing else: afterwards no message and no session row carries the
  id, and the history of the id is empty.
\<close>

theorem delete_session_removes_session:
  "fst (delete_session sid s) = Deleted \<and>
   chat_messages (snd (delete_session sid s)) =
     filter (\<lambda>m. session_id m \<noteq> sid) (chat_messages s) \<and>
   chat_sessions (snd (delete_session sid s)) =
     filter (\<lambda>r. sess_id r \<noteq> sid) (chat_sessions s) \<and>
   sid \<notin> session_id ` set (chat_messages (snd (delete_session sid s))) \<and>
   sid \<notin> sess_id ` set (chat_sessions (snd (delete_session sid s))) \<and>
   get_chat_history sid (snd (delete_session sid s)) = []"
  by (auto simp: delete_session_def get_chat_history_def filter_empty_conv)

theorem delete_session_removes_session_witness:
  "get_chat_history ''s1'' five_messages \<noteq> [] \<and>
   ''s1'' \<in> sess_id ` set (chat_sessions five_messages) \<and>
   get_chat_history ''s1'' (snd (delete_session ''s1'' five_messages)) = [] \<and>
   chat_sessions (snd (delete_session ''s1'' five_messages)) =
     [\<lparr>sess_id = ''s2'', title = ''other'', created_at = 2, updated_at = 10\<rparr>] \<and>
   chat_messages (snd (delete_session ''s1'' five_messages)) =
     [\<lparr>msg_id = 6, session_id = ''s2'', role = ''user'', content = ''elsewhere'', timestamp = 10\<rparr>]"
  using delete_session_removes_session[of "''s1''" five_messages]
  by (simp add: five_messages_def get_chat_history_def)

section \<open>The history of an unknown session\<close>

text \<open>
  C7. The claim: the history of a session id that has no session row is empty. The messages
  that \<open>send_message\<close> stores under such an id (see C4) are returned by
  \<open>get_chat_history\<close>: after a session was created and deleted and a message was sent to
  its id, the id has no session row and a history of two messages.
\<close>

theorem get_chat_history_after_delete_nonempty:
  "reach (clock_from 10 4) revived_store \<and>
   chat_sessions revived_store = [] \<and>
   get_chat_history ''s1'' revived_store =
     [\<lparr>h_id = 1, h_role = ''user'', h_content = ''hi'', h_timestamp = 11\<rparr>,
      \<lparr>h_id = 2, h_role = ''assistant'', h_content = ''ok'', h_timestamp = 13\<rparr>]"
proof -
  have gone: "chat_sessions revived_store = []"
    by (simp add: revived_store_value)
  have history: "get_chat_history ''s1'' revived_store =
     [\<lparr>h_id = 1, h_role = ''user'', h_content = ''hi'', h_timestamp = 11\<rparr>,
      \<lparr>h_id = 2, h_role = ''assistant'', h_content = ''ok'', h_timestamp = 13\<rparr>]"
    by (simp add: revived_store_value get_chat_history_def entry_def)
  show ?thesis
    by (intro conjI revived_store_reach gone history)
qed

section \<open>Empty messages\<close>

text \<open>
  C8. A \<open>send_message\<close> request whose message is absent, empty or made of white space only
  answers 400 and leaves the store as it was.
\<close>

theorem send_message_empty_rejected:
  "send_message sid (JsonObject None) ag clk s = (EmptyMessage, s) \<and>
   ((\<forall>c \<in> set raw. isspace c) \<longrightarrow>
      send_message sid (JsonObject (Some (JString raw))) ag clk s = (EmptyMessage, s)) \<and>
   status_code EmptyMessage = 400"
  by (simp add: send_message_def request_message_def strip_empty_iff)

theorem send_message_empty_rejected_witness:
  "isspace CHR '' '' \<and> isspace (CHR 0x09) \<and> isspace (CHR 0x0A) \<and>
   send_message ''s1'' (JsonObject (Some (JString [CHR '' '', CHR 0x09, CHR 0x0A])))
     (agent_replying ''ok'') (clock_from 20) five_messages = (EmptyMessage, five_messages) \<and>
   send_message ''s1'' (JsonObject None) (agent_replying ''ok'') (clock_from 20) five_messages
     = (EmptyMessage, five_messages)"
proof -
  have w: "isspace CHR '' ''" "isspace (CHR 0x09)" "isspace (CHR 0x0A)"
    by (simp_all add: isspace_def)
  then have all: "\<forall>c \<in> set [CHR '' '', CHR 0x09, CHR 0x0A]. isspace c"
    by simp
  note rejected = send_message_empty_rejected[of "''s1''" "agent_replying ''ok''" "clock_from 20"
      five_messages "[CHR '' '', CHR 0x09, CHR 0x0A]"]
  from rejected all
  have blank: "send_message ''s1'' (JsonObject (Some (JString [CHR '' '', CHR 0x09, CHR 0x0A])))
     (agent_replying ''ok'') (clock_from 20) five_messages = (EmptyMessage, five_messages)"
    by blast
  from rejected
  have absent: "send_message ''s1'' (JsonObject None) (agent_replying ''ok'') (clock_from 20)
     five_messages = (EmptyMessage, five_messages)"
    by blast
  show ?thesis
    by (intro conjI w blank absent)
qed

section \<open>The scraper tool\<close>

text \<open>
  C9. \<open>run\<close> returns a string whatever the fetch and the parse did, and no exception
  leaves it; when the fetch raised, the string begins with \<^verbatim>\<open>Error:\<close>.
\<close>

theorem run_never_raises:
  "(\<exists>r. run f = Inr r) \<and> (\<exists>r. run (Raised e) = Inr r \<and> prefix ''Error:'' r)"
proof
  show "\<exists>r. run f = Inr r"
  proof (cases "run_try f")
    case (Inl x)
    then show ?thesis by (cases x) (simp_all add: run_def)
  next
    case (Inr r)
    then show ?thesis by (simp add: run_def)
  qed
  show "\<exists>r. run (Raised e) = Inr r \<and> prefix ''Error:'' r"
    by (cases e) (simp_all add: run_def run_try_def)
qed

theorem run_never_raises_witness:
  "run (Raised (RequestException ''timed out'')) =
     Inr ''Error: Could not access LawBhoomi URL https://lawbhoomi.com/law-notes/. Details: timed out'' \<and>
   run (Page \<lparr>content_area = None, body = None\<rparr>) =
     Inr (''Error: Failed to process content from URL https://lawbhoomi.com/law-notes/. Details: '' @
          CHR 0x27 # ''NoneType'' @ CHR 0x27 # '' object has no attribute '' @
          CHR 0x27 # ''get_text'' @ [CHR 0x27]) \<and>
   run (Page \<lparr>content_area = None, body = Some ''  too   short ''\<rparr>) =
     Inr ''Successfully accessed URL https://lawbhoomi.com/law-notes/, but extracted very little content. Extracted snippet: too short...''"
  using run_never_raises[of "Raised (RequestException ''timed out'')" "RequestException ''timed out''"]
  by (simp add: run_def run_try_def fixed_url_def split_def isspace_def)

section \<open>A failing agent\<close>

text \<open>
  C10. When the agent raises in a \<open>send_message\<close> request with a message \<open>u\<close> that is
  not empty, the answer is 500 and the store keeps what was written before the agent ran:
  the user message is the one new row of the message table (no assistant row), and the
  session has the new title when its history was empty.
\<close>

theorem send_message_agent_failure:
  assumes "request_message b = Inr u" and "u \<noteq> []"
    and "ag (get_chat_history sid s) u = Inl e"
  shows "fst (send_message sid b ag clk s) = InternalError e \<and>
         status_code (fst (send_message sid b ag clk s)) = 500 \<and>
         chat_messages (snd (send_message sid b ag clk s)) =
           chat_messages s @
           [\<lparr>msg_id = sqlite_sequence s + 1, session_id = sid, role = ''user'', content = u,
             timestamp = clk 1\<rparr>] \<and>
         map title (chat_sessions (snd (send_message sid b ag clk s))) =
           (if get_chat_history sid s = []
            then map (\<lambda>r. if sess_id r = sid then display_title u else title r) (chat_sessions s)
            else map title (chat_sessions s)) \<and>
         map sess_id (chat_sessions (snd (send_message sid b ag clk s))) =
           map sess_id (chat_sessions s)"
  using assms
  by (simp add: send_message_def Let_def titles_retitle save_message_def insert_message_def)

theorem send_message_agent_failure_witness:
  "request_message (text_body long_question) = Inr long_question \<and> long_question \<noteq> [] \<and>
   agent_failing (AgentError ''rate limit'') (get_chat_history ''s1'' empty_session) long_question
     = Inl (AgentError ''rate limit'') \<and>
   fst (send_message ''s1'' (text_body long_question) (agent_failing (AgentError ''rate limit''))
          (clock_from 10) empty_session) = InternalError (AgentError ''rate limit'') \<and>
   chat_messages (snd (send_message ''s1'' (text_body long_question)
          (agent_failing (AgentError ''rate limit'')) (clock_from 10) empty_session)) =
     [\<lparr>msg_id = 1, session_id = ''s1'', role = ''user'', content = long_question,
       timestamp = 11\<rparr>] \<and>
   map title (chat_sessions (snd (send_message ''s1'' (text_body long_question)
          (agent_failing (AgentError ''rate limit'')) (clock_from 10) empty_session))) =
     [''Which are the grounds for divorce under the Hindu ...'']"
proof -
  note b = long_question_request
  have n: "long_question \<noteq> []"
    by (simp add: long_question_def)
  have a: "agent_failing (AgentError ''rate limit'') (get_chat_history ''s1'' empty_session)
             long_question = Inl (AgentError ''rate limit'')"
    by (simp add: agent_failing_def)
  have h: "get_chat_history ''s1'' empty_session = []"
    by (simp add: get_chat_history_def empty_session_value)
  have t: "display_title long_question = ''Which are the grounds for divorce under the Hindu ...''"
    by (simp add: display_title_def long_question_def)
  note run = send_message_agent_failure[where ag = "agent_failing (AgentError ''rate limit'')"
        and clk = "clock_from 10", OF b n a]
  have "chat_messages (snd (send_message ''s1'' (text_body long_question)
          (agent_failing (AgentError ''rate limit'')) (clock_from 10) empty_session)) =
     [\<lparr>msg_id = 1, session_id = ''s1'', role = ''user'', content = long_question,
       timestamp = 11\<rparr>]"
    using run by (simp add: empty_session_value clock_from_def)
  moreover have "map title (chat_sessions (snd (send_message ''s1'' (text_body long_question)
          (agent_failing (AgentError ''rate limit'')) (clock_from 10) empty_session))) =
     [''Which are the grounds for divorce under the Hindu ...'']"
    using run h by (simp add: t empty_session_value)
  ultimately show ?thesis
    using b n a run by simp
qed

end
